theory Spec2Isabelle
  imports Complex_Main "HOL-Library.Word"
begin

section \<open>Audio samples and the WAV encoder\<close>

text \<open>
  The elements of a \<^verbatim>\<open>Float32Array\<close>: a finite number, an infinity or NaN. A finite
  sample is kept as the real number it denotes. Reading a binary32 element gives a
  double; \<^verbatim>\<open>Math.min\<close> and \<^verbatim>\<open>Math.max\<close> are exact, and the product of a binary32 value
  (24 significant bits) with \<^verbatim>\<open>0x7FFF\<close> (15 bits) fits the 53 bits of a double, so the
  arithmetic of \<^verbatim>\<open>encodeWAV\<close> on finite samples is exact and the real numbers compute
  what the code computes. Signed zeros are not distinguished.
\<close>

datatype f32 = Num real | PosInf | NegInf | NaN

fun math_min :: "f32 \<Rightarrow> f32 \<Rightarrow> f32" where
  "math_min NaN _ = NaN"
| "math_min _ NaN = NaN"
| "math_min NegInf _ = NegInf"
| "math_min _ NegInf = NegInf"
| "math_min PosInf y = y"
| "math_min x PosInf = x"
| "math_min (Num a) (Num b) = Num (min a b)"

fun math_max :: "f32 \<Rightarrow> f32 \<Rightarrow> f32" where
  "math_max NaN _ = NaN"
| "math_max _ NaN = NaN"
| "math_max PosInf _ = PosInf"
| "math_max _ PosInf = PosInf"
| "math_max NegInf y = y"
| "math_max x NegInf = x"
| "math_max (Num a) (Num b) = Num (max a b)"

fun js_times :: "f32 \<Rightarrow> f32 \<Rightarrow> f32" where
  "js_times NaN _ = NaN"
| "js_times _ NaN = NaN"
| "js_times (Num a) (Num b) = Num (a * b)"
| "js_times (Num a) PosInf = (if a = 0 then NaN else if 0 < a then PosInf else NegInf)"
| "js_times (Num a) NegInf = (if a = 0 then NaN else if 0 < a then NegInf else PosInf)"
| "js_times PosInf (Num b) = (if b = 0 then NaN else if 0 < b then PosInf else NegInf)"
| "js_times NegInf (Num b) = (if b = 0 then NaN else if 0 < b then NegInf else PosInf)"
| "js_times PosInf PosInf = PosInf"
| "js_times PosInf NegInf = NegInf"
| "js_times NegInf PosInf = NegInf"
| "js_times NegInf NegInf = PosInf"

text \<open>
  \<^verbatim>\<open>DataView.setInt16(offset, v, true)\<close> converts \<^verbatim>\<open>v\<close> with ToInt16: NaN and the
  infinities give 0, a finite number is truncated towards zero and reduced modulo
  \<open>2 ^ 16\<close>. The two bytes are stored low byte first.
\<close>

definition trunc :: "real \<Rightarrow> int" where
  "trunc r = (if 0 \<le> r then \<lfloor>r\<rfloor> else \<lceil>r\<rceil>)"

fun toInt16 :: "f32 \<Rightarrow> 16 word" where
  "toInt16 (Num r) = word_of_int (trunc r)"
| "toInt16 _ = 0"

definition int16le :: "16 word \<Rightarrow> 8 word list" where
  "int16le w = [ucast w, ucast (drop_bit 8 w)]"

definition uint16le :: "nat \<Rightarrow> 8 word list" where
  "uint16le v = int16le (word_of_nat v)"

definition uint32le :: "nat \<Rightarrow> 8 word list" where
  "uint32le v =
     (let w = (word_of_nat v :: 32 word)
      in [ucast w, ucast (drop_bit 8 w), ucast (drop_bit 16 w), ucast (drop_bit 24 w)])"

definition writeString :: "string \<Rightarrow> 8 word list" where
  "writeString s = map (\<lambda>c. word_of_nat (of_char c)) s"

text \<open>The body of the sample loop of \<^verbatim>\<open>encodeWAV\<close> (lines 54 and 55).\<close>

definition clampSample :: "f32 \<Rightarrow> f32" where
  "clampSample x = math_max (Num (- 1)) (math_min (Num 1) x)"

definition pcm16 :: "f32 \<Rightarrow> 16 word" where
  "pcm16 x = toInt16 (js_times (clampSample x) (Num 32767))"

definition encodeWAV :: "f32 list \<Rightarrow> nat \<Rightarrow> 8 word list" where
  "encodeWAV samples sampleRate =
     writeString ''RIFF'' @ uint32le (36 + length samples * 2) @ writeString ''WAVE''
     @ writeString ''fmt '' @ uint32le 16 @ uint16le 1 @ uint16le 1
     @ uint32le sampleRate @ uint32le (sampleRate * 2) @ uint16le 2 @ uint16le 16
     @ writeString ''data'' @ uint32le (length samples * 2)
     @ concat (map (\<lambda>x. int16le (pcm16 x)) samples)"


text \<open>
  \<^verbatim>\<open>resample\<close>: linear interpolation between the two nearest source samples. The
  sums and products of finite samples are taken in the real numbers (the rounding of
  each stored element to binary32 is not represented); both callers of
  \<^verbatim>\<open>processAudioBuffer\<close> in the page pass a buffer created at 16000 Hz, for which
  \<^verbatim>\<open>resample\<close> is not reached. Sample rates are positive.
\<close>

fun js_plus :: "f32 \<Rightarrow> f32 \<Rightarrow> f32" where
  "js_plus NaN _ = NaN"
| "js_plus _ NaN = NaN"
| "js_plus (Num a) (Num b) = Num (a + b)"
| "js_plus PosInf NegInf = NaN"
| "js_plus NegInf PosInf = NaN"
| "js_plus PosInf _ = PosInf"
| "js_plus _ PosInf = PosInf"
| "js_plus NegInf _ = NegInf"
| "js_plus _ NegInf = NegInf"

definition math_round :: "real \<Rightarrow> nat" where
  "math_round r = nat \<lfloor>r + 1 / 2\<rfloor>"

definition element :: "f32 list \<Rightarrow> nat \<Rightarrow> f32" where
  "element a i = (if i < length a then a ! i else NaN)"

definition resample :: "f32 list \<Rightarrow> nat \<Rightarrow> nat \<Rightarrow> f32 list" where
  "resample audioData originalSampleRate targetSampleRate =
     (if originalSampleRate = targetSampleRate then audioData
      else
        let sampleRateRatio = real originalSampleRate / real targetSampleRate;
            newLength = math_round (real (length audioData) / sampleRateRatio)
        in map (\<lambda>i.
              let originalIndex = real i * sampleRateRatio;
                  index = nat \<lfloor>originalIndex\<rfloor>;
                  fraction = originalIndex - real index
              in if index + 1 < length audioData
                 then js_plus (js_times (element audioData index) (Num (1 - fraction)))
                        (js_times (element audioData (index + 1)) (Num fraction))
                 else element audioData index)
            [0..<newLength])"

record AudioBuffer =
  channelData :: "f32 list"
  sampleRate :: nat

definition processAudioBuffer :: "AudioBuffer \<Rightarrow> 8 word list" where
  "processAudioBuffer audioBuffer =
     (let targetSampleRate = 16000;
          samples = (if sampleRate audioBuffer \<noteq> targetSampleRate
                     then resample (channelData audioBuffer) (sampleRate audioBuffer) targetSampleRate
                     else channelData audioBuffer)
      in encodeWAV samples targetSampleRate)"

section \<open>Locally persisted state and the language helpers\<close>

text \<open>
  \<^verbatim>\<open>localStorage\<close> is a map from keys to strings. A JavaScript value used as a condition
  or on the left of \<^verbatim>\<open>||\<close> counts as absent when it is \<^verbatim>\<open>null\<close>, \<^verbatim>\<open>undefined\<close> or the
  empty string.
\<close>

definition truthy :: "string option \<Rightarrow> bool" where
  "truthy v = (case v of None \<Rightarrow> False | Some s \<Rightarrow> s \<noteq> [])"

definition or_else :: "string option \<Rightarrow> string \<Rightarrow> string" where
  "or_else v d = (case v of None \<Rightarrow> d | Some s \<Rightarrow> if s = [] then d else s)"

text \<open>
  What \<^verbatim>\<open>JSON.parse\<close> makes of the stored user profile: it throws, or gives a value
  that is not an object, or an object, of which only the \<^verbatim>\<open>language\<close> property is read.
  Of a decoded token only the properties \<^verbatim>\<open>userId\<close>, \<^verbatim>\<open>id\<close> and \<^verbatim>\<open>sub\<close> are read.
\<close>

datatype user_json = SyntaxError | NonObject | UserObject "string option"

record jwt_payload =
  payload_userId :: "string option"
  payload_id :: "string option"
  payload_sub :: "string option"

text \<open>
  The surroundings of the page: the local storage, the two parsers of the browser
  (\<^verbatim>\<open>JSON.parse\<close> on the stored profile; \<^verbatim>\<open>JSON.parse(atob(token.split('.')[1]))\<close> on
  the token, \<open>None\<close> when it throws), and the room context.
\<close>

record page_env =
  localStorage :: "string \<rightharpoonup> string"
  parseJson :: "string \<Rightarrow> user_json"
  decodeToken :: "string \<Rightarrow> jwt_payload option"
  roomId :: "string option"
  role :: string

definition defaultLanguage :: string where
  "defaultLanguage = ''en-US''"

datatype js_error = Thrown

text \<open>\<^verbatim>\<open>Helpers.getItemLocalStorage(key, true)\<close>: the item is parsed as JSON.\<close>

definition getItemLocalStorage :: "page_env \<Rightarrow> string \<Rightarrow> js_error + user_json option" where
  "getItemLocalStorage env key =
     (case localStorage env key of
        None \<Rightarrow> Inr None
      | Some data \<Rightarrow>
          if data = [] then Inr None
          else (case parseJson env data of SyntaxError \<Rightarrow> Inl Thrown | v \<Rightarrow> Inr (Some v)))"

definition getUserData :: "page_env \<Rightarrow> js_error + string option option" where
  "getUserData env =
     (case getItemLocalStorage env ''userData'' of
        Inl e \<Rightarrow> Inl e
      | Inr (Some (UserObject lang)) \<Rightarrow> Inr (Some lang)
      | Inr _ \<Rightarrow> Inr None)"

definition getUserLanguage :: "page_env \<Rightarrow> string" where
  "getUserLanguage env =
     (case getUserData env of
        Inl _ \<Rightarrow> defaultLanguage
      | Inr userData \<Rightarrow>
          (case userData of
             Some (Some lang) \<Rightarrow>
               if lang \<noteq> [] then lang
               else or_else (localStorage env ''listenerLanguage'') defaultLanguage
           | _ \<Rightarrow> or_else (localStorage env ''listenerLanguage'') defaultLanguage))"

definition getTargetLanguageCode :: "page_env \<Rightarrow> string" where
  "getTargetLanguageCode env =
     or_else (localStorage env ''listenerLanguage'') (getUserLanguage env)"

definition getUserId :: "page_env \<Rightarrow> string option" where
  "getUserId env =
     (case localStorage env ''token'' of
        None \<Rightarrow> None
      | Some token \<Rightarrow>
          if token = [] then None
          else (case decodeToken env token of
                  None \<Rightarrow> None
                | Some payload \<Rightarrow>
                    if truthy (payload_userId payload) then payload_userId payload
                    else if truthy (payload_id payload) then payload_id payload
                    else payload_sub payload))"

section \<open>Chunk dispatch: \<^verbatim>\<open>processAudioChunk\<close>\<close>

text \<open>
  What the page does to the outside is kept in a log: notifications, requests to the
  three services, audio playback and the \<^verbatim>\<open>transcription\<close> window event. The audio of
  a transcription request is logged as the bytes of the blob (the code sends their
  base64 text).
\<close>

record audio_request =
  req_userId :: string
  req_roomId :: string
  req_chunkIndex :: int
  req_totalChunks :: int
  req_audio :: "8 word list"
  req_targetLanguageCode :: string
  req_audioFormat :: string

datatype effect =
    ToastError string
  | ToastSuccess string
  | AudioProcessRequest audio_request
  | TranslateRequest nat string string string
  | TtsRequest nat string string
  | PlayAudio string
  | TranscriptionEvent string string

text \<open>
  The body of a successful transcription response, and the ways the request of
  \<^verbatim>\<open>processAudioChunk\<close> can end: the fetch rejects, the status is not OK, the body is
  not JSON, the body is \<^verbatim>\<open>null\<close>, or it is an object.
\<close>

record process_result =
  result_text :: "string option"
  result_language :: "string option"
  result_audioContent :: "string option"

datatype fetch_outcome =
    FetchRejected
  | NotOk nat
  | JsonFailed
  | ResultNull
  | ResultObject process_result

text \<open>
  \<^verbatim>\<open>String.prototype.trim\<close> removes white space and line terminators at both ends.
  Characters are the code units below 256; the white space characters beyond are not
  represented.
\<close>

definition isWhiteSpace :: "char \<Rightarrow> bool" where
  "isWhiteSpace c = (of_char c \<in> {9, 10, 11, 12, 13, 32, 160 :: nat})"

definition trim :: "string \<Rightarrow> string" where
  "trim s = rev (dropWhile isWhiteSpace (rev (dropWhile isWhiteSpace s)))"

text \<open>
  An invocation of \<^verbatim>\<open>processAudioChunk\<close> that holds the permit and is suspended at an
  \<^verbatim>\<open>await\<close>: first on \<^verbatim>\<open>audioBlob.arrayBuffer()\<close>, then on the fetch and the body of
  its response. It remembers its arguments and who awaits it: the message handler of the
  worklet or \<^verbatim>\<open>stopSpeech\<close>.
\<close>

datatype caller = FromWorklet | FromStop

datatype stage = ReadingBlob | Fetching

record pending_call =
  call_id :: nat
  call_caller :: caller
  call_stage :: stage
  call_userId :: string
  call_roomId :: string
  call_blob :: "8 word list"
  call_chunkIndex :: int
  call_totalChunks :: int

text \<open>
  The state of one recording: the refs of the page, the variables that the closure of
  \<^verbatim>\<open>startSpeech\<close> captures (\<^verbatim>\<open>audioBuffer\<close>, \<^verbatim>\<open>bufferSize\<close>, \<^verbatim>\<open>overlapBuffer\<close>), the
  permit, the suspended invocations, and the log. The permit \<^verbatim>\<open>isProcessingAudio\<close> is a
  variable of the component body (line 303): the message handler that \<^verbatim>\<open>startSpeech\<close>
  installs keeps calling the \<^verbatim>\<open>processAudioChunk\<close> of the render that started the
  recording, so all its invocations read and write that one variable, which starts
  \<open>False\<close>. \<open>calls\<close> is a trace added for the proofs: the \<open>(chunkIndex, totalChunks)\<close>
  of every invocation of \<^verbatim>\<open>processAudioChunk\<close>, in order.
\<close>

record capture_state =
  audioBuffer :: "f32 list list"
  bufferSize :: nat
  overlapBuffer :: "f32 list option"
  audioChunksRef :: "f32 list list"
  chunkIndexRef :: int
  audioContextRef :: bool
  isProcessingAudio :: bool
  isProcessing :: bool
  isRecording :: bool
  inflight :: "pending_call list"
  nextCall :: nat
  calls :: "(int \<times> int) list"
  outbox :: "effect list"

text \<open>
  \<^verbatim>\<open>processAudioChunk\<close> up to its first \<^verbatim>\<open>await\<close>. The result says whether the
  invocation has returned (dropped, or user or room missing) or is suspended.
\<close>

definition processAudioChunk ::
  "page_env \<Rightarrow> capture_state \<Rightarrow> 8 word list \<Rightarrow> int \<Rightarrow> int \<Rightarrow> caller \<Rightarrow> capture_state \<times> bool" where
  "processAudioChunk env s audioBlob chunkIndex totalChunks who =
     (let s0 = s\<lparr>calls := calls s @ [(chunkIndex, totalChunks)]\<rparr>
      in if isProcessingAudio s0 then (s0, True)
         else
           (case (getUserId env, roomId env) of
              (Some userId, Some room) \<Rightarrow>
                if userId \<noteq> [] \<and> room \<noteq> [] then
                  (s0\<lparr>isProcessingAudio := True, isProcessing := True,
                      inflight := inflight s0 @
                        [\<lparr>call_id = nextCall s0, call_caller = who, call_stage = ReadingBlob,
                          call_userId = userId, call_roomId = room, call_blob = audioBlob,
                          call_chunkIndex = chunkIndex, call_totalChunks = totalChunks\<rparr>],
                      nextCall := nextCall s0 + 1\<rparr>, False)
                else
                  (s0\<lparr>isProcessingAudio := False,
                      outbox := outbox s0 @ [ToastError ''Missing user or room information'']\<rparr>,
                   True)
            | _ \<Rightarrow>
                (s0\<lparr>isProcessingAudio := False,
                    outbox := outbox s0 @ [ToastError ''Missing user or room information'']\<rparr>,
                 True)))"

text \<open>The handling of a parsed response body (lines 360 to 394).\<close>

definition handleResult :: "page_env \<Rightarrow> process_result \<Rightarrow> effect list" where
  "handleResult env result =
     (case (result_text result, result_audioContent result) of
        (Some txt, Some audio) \<Rightarrow>
          if txt \<noteq> [] \<and> trim txt \<noteq> [] \<and> audio \<noteq> [] then
            (if role env = ''listener'' then [PlayAudio audio] else [])
            @ [TranscriptionEvent txt (or_else (result_language result) (getUserLanguage env))]
          else []
      | _ \<Rightarrow> [])"

text \<open>
  The code after the \<^verbatim>\<open>await\<close> of \<^verbatim>\<open>processAudioChunk\<close> in its two callers: the message
  handler resets its buffer and advances the chunk index (lines 532 to 534);
  \<^verbatim>\<open>stopSpeech\<close> empties \<^verbatim>\<open>audioChunksRef\<close> and resets the capture state (lines 444 to
  454).
\<close>

definition stopTail :: "capture_state \<Rightarrow> capture_state" where
  "stopTail s =
     s\<lparr>isRecording := False, chunkIndexRef := 0,
       outbox := outbox s @ [ToastSuccess ''Recording stopped'']\<rparr>"

fun resume :: "caller \<Rightarrow> capture_state \<Rightarrow> capture_state" where
  "resume FromWorklet s = s\<lparr>audioBuffer := [], bufferSize := 0, chunkIndexRef := chunkIndexRef s + 1\<rparr>"
| "resume FromStop s = stopTail (s\<lparr>audioChunksRef := []\<rparr>)"

text \<open>
  The \<^verbatim>\<open>finally\<close> block: the invocation leaves the suspended ones, the permit is
  released, and the caller continues. \<open>caught\<close> is the \<^verbatim>\<open>catch\<close> block before it.
\<close>

definition finish :: "pending_call \<Rightarrow> capture_state \<Rightarrow> capture_state" where
  "finish p s =
     resume (call_caller p)
       (s\<lparr>inflight := filter (\<lambda>q. call_id q \<noteq> call_id p) (inflight s),
          isProcessing := False, isProcessingAudio := False\<rparr>)"

definition caught :: "pending_call \<Rightarrow> capture_state \<Rightarrow> capture_state" where
  "caught p s = finish p (s\<lparr>outbox := outbox s @ [ToastError ''Failed to process audio'']\<rparr>)"

definition findCall :: "capture_state \<Rightarrow> nat \<Rightarrow> pending_call option" where
  "findCall s i = find (\<lambda>q. call_id q = i) (inflight s)"

text \<open>
  The \<^verbatim>\<open>await\<close> of \<^verbatim>\<open>audioBlob.arrayBuffer()\<close> ends. When the bytes were read and
  converted to base64 the request is sent; when reading or converting threw, the
  \<^verbatim>\<open>catch\<close> block runs. Then the \<^verbatim>\<open>await\<close> of the fetch and of the body of its response
  ends.
\<close>

definition blobRead :: "page_env \<Rightarrow> capture_state \<Rightarrow> nat \<Rightarrow> bool \<Rightarrow> capture_state" where
  "blobRead env s i ok =
     (case findCall s i of
        None \<Rightarrow> s
      | Some p \<Rightarrow>
          if call_stage p \<noteq> ReadingBlob then s
          else if \<not> ok then caught p s
          else
            s\<lparr>inflight := map (\<lambda>q. if call_id q = i then q\<lparr>call_stage := Fetching\<rparr> else q) (inflight s),
              outbox := outbox s @
                [AudioProcessRequest
                   \<lparr>req_userId = call_userId p, req_roomId = call_roomId p,
                    req_chunkIndex = call_chunkIndex p, req_totalChunks = call_totalChunks p,
                    req_audio = call_blob p, req_targetLanguageCode = getTargetLanguageCode env,
                    req_audioFormat = ''wav''\<rparr>]\<rparr>)"

definition fetchSettled :: "page_env \<Rightarrow> capture_state \<Rightarrow> nat \<Rightarrow> fetch_outcome \<Rightarrow> capture_state" where
  "fetchSettled env s i outcome =
     (case findCall s i of
        None \<Rightarrow> s
      | Some p \<Rightarrow>
          if call_stage p \<noteq> Fetching then s
          else (case outcome of
                  ResultObject result \<Rightarrow> finish p (s\<lparr>outbox := outbox s @ handleResult env result\<rparr>)
                | _ \<Rightarrow> caught p s))"

section \<open>Capture: the message handler, \<^verbatim>\<open>startSpeech\<close> and \<^verbatim>\<open>stopSpeech\<close>\<close>

definition targetBufferSize :: nat where
  "targetBufferSize = 32000"

definition overlapSize :: nat where
  "overlapSize = 8000"

text \<open>
  The handler of a worklet message (lines 490 to 539). \<^verbatim>\<open>bufferSize\<close> is the number of
  samples in \<^verbatim>\<open>audioBuffer\<close> (both grow and are reset together), so the chunks fill
  \<^verbatim>\<open>combinedAudio\<close> exactly. The \<^verbatim>\<open>await\<close> of \<^verbatim>\<open>processAudioBuffer\<close>, and that of an
  invocation of \<^verbatim>\<open>processAudioChunk\<close> that returns at once, resume before any other
  message or response is handled; the \<^verbatim>\<open>await\<close> of a suspended invocation resumes when
  that invocation finishes.
\<close>

definition onmessage :: "page_env \<Rightarrow> capture_state \<Rightarrow> f32 list \<Rightarrow> capture_state" where
  "onmessage env s chunk =
     (let s1 = s\<lparr>audioBuffer := audioBuffer s @ [chunk], bufferSize := bufferSize s + length chunk\<rparr>
      in if bufferSize s1 \<ge> targetBufferSize then
           (let combinedAudio =
                  (case overlapBuffer s1 of None \<Rightarrow> [] | Some overlap \<Rightarrow> overlap) @ concat (audioBuffer s1);
                s2 = s1\<lparr>overlapBuffer :=
                        Some (if length combinedAudio \<ge> overlapSize
                              then drop (length combinedAudio - overlapSize) combinedAudio
                              else combinedAudio)\<rparr>
            in if \<not> audioContextRef s2 then s2
               else
                 (case processAudioChunk env s2
                         (processAudioBuffer \<lparr>channelData = combinedAudio, sampleRate = 16000\<rparr>)
                         (chunkIndexRef s2) (- 1) FromWorklet of
                    (s3, returned) \<Rightarrow> if returned then resume FromWorklet s3 else s3))
         else s1)"

text \<open>
  \<^verbatim>\<open>stopSpeech\<close> (lines 404 to 455): the capture graph is released, then the samples of
  \<^verbatim>\<open>audioChunksRef\<close>, if there are any, are sent as the final chunk, with
  \<^verbatim>\<open>totalChunks = chunkIndex + 1\<close>. An \<^verbatim>\<open>AudioBuffer\<close> of length 0 cannot be created:
  the error is caught and logged. The \<^verbatim>\<open>await\<close> of \<^verbatim>\<open>close()\<close> is taken in one step
  with what follows it.
\<close>

definition stopSpeech :: "page_env \<Rightarrow> capture_state \<Rightarrow> capture_state" where
  "stopSpeech env s =
     (let s1 = s\<lparr>audioContextRef := False\<rparr>
      in if length (audioChunksRef s1) > 0 then
           (let combinedAudio = concat (audioChunksRef s1)
            in if combinedAudio = [] then stopTail s1
               else
                 (case processAudioChunk env s1
                         (processAudioBuffer \<lparr>channelData = combinedAudio, sampleRate = 16000\<rparr>)
                         (chunkIndexRef s1) (chunkIndexRef s1 + 1) FromStop of
                    (s2, returned) \<Rightarrow> if returned then resume FromStop s2 else s2))
         else stopTail s1)"

text \<open>
  The state in which \<^verbatim>\<open>startSpeech\<close> leaves the recording once the microphone is
  granted and the worklet is loaded (lines 480 to 547).
\<close>

definition startSpeech :: capture_state where
  "startSpeech =
     \<lparr>audioBuffer = [], bufferSize = 0, overlapBuffer = None, audioChunksRef = [],
      chunkIndexRef = 0, audioContextRef = True, isProcessingAudio = False,
      isProcessing = False, isRecording = True, inflight = [], nextCall = 0, calls = [],
      outbox = [ToastSuccess ''Recording started (WAV format)'']\<rparr>"

text \<open>
  Everything runs on one event loop: a recording is a sequence of events, each handled
  to its next suspension before the following one.
\<close>

datatype capture_event =
    Frame "f32 list"
  | BlobRead nat bool
  | FetchSettled nat fetch_outcome
  | Stop

fun capture_step :: "page_env \<Rightarrow> capture_state \<Rightarrow> capture_event \<Rightarrow> capture_state" where
  "capture_step env s (Frame chunk) = onmessage env s chunk"
| "capture_step env s (BlobRead i ok) = blobRead env s i ok"
| "capture_step env s (FetchSettled i outcome) = fetchSettled env s i outcome"
| "capture_step env s Stop = stopSpeech env s"

definition capture_run :: "page_env \<Rightarrow> capture_state \<Rightarrow> capture_event list \<Rightarrow> capture_state" where
  "capture_run env s evs = foldl (capture_step env) s evs"

definition requests :: "effect list \<Rightarrow> audio_request list" where
  "requests es = concat (map (\<lambda>e. case e of AudioProcessRequest r \<Rightarrow> [r] | _ \<Rightarrow> []) es)"

definition silence :: "nat \<Rightarrow> f32 list" where
  "silence n = replicate n (Num 0)"

section \<open>Captions: the data-message effect\<close>

text \<open>
  A data message of the room, as the effect reads it: the \<^verbatim>\<open>text\<close> property may be
  missing.
\<close>

record caption_msg =
  msg_type :: string
  msg_text :: "string option"
  msg_language :: string
  msg_timestamp :: nat
  msg_isLocal :: bool
  msg_participantName :: string

definition textOf :: "caption_msg \<Rightarrow> string" where
  "textOf m = (case msg_text m of None \<Rightarrow> [] | Some t \<Rightarrow> t)"

text \<open>
  The ways the promise chain of the translation request can settle (lines 237 to 270):
  the fetch rejects, \<^verbatim>\<open>res.json()\<close> rejects, the body is \<^verbatim>\<open>null\<close> (reading
  \<^verbatim>\<open>data.translatedText\<close> throws), or the body is a value whose \<^verbatim>\<open>translatedText\<close>
  property is read. The first three reach the \<^verbatim>\<open>catch\<close> handler. The chain of the
  speech request has no \<^verbatim>\<open>catch\<close>: a failure changes nothing.
\<close>

datatype translate_outcome =
    TranslateRejected
  | TranslateNotJson
  | TranslateNull
  | TranslateData "string option"

datatype tts_outcome = TtsFailed | TtsData "string option"

text \<open>
  The caption state of a viewer: the two React states, the ref of the expiry timer, the
  timers that are set and have neither fired nor been cleared, the translation and
  speech requests that have not settled (a translation request keeps the \<^verbatim>\<open>lastMsg\<close> and
  \<^verbatim>\<open>myLanguage\<close> of its closure), and the log.
\<close>

record caption_state =
  captionText :: string
  messages :: "caption_msg list"
  captionTimeoutRef :: "nat option"
  timers :: "nat list"
  nextTimer :: nat
  translating :: "(nat \<times> caption_msg \<times> string) list"
  speaking :: "nat list"
  nextRequest :: nat
  emitted :: "effect list"

definition noCaption :: caption_state where
  "noCaption =
     \<lparr>captionText = [], messages = [], captionTimeoutRef = None, timers = [], nextTimer = 1,
      translating = [], speaking = [], nextRequest = 0, emitted = []\<rparr>"

text \<open>
  \<^verbatim>\<open>captionTimeoutRef.current = setTimeout(() => setCaption(''), 5000)\<close>. Timer handles
  are positive numbers, so a handle in the ref always passes the test of line 233.
\<close>

definition setCaptionTimeout :: "caption_state \<Rightarrow> caption_state" where
  "setCaptionTimeout s =
     s\<lparr>timers := timers s @ [nextTimer s], captionTimeoutRef := Some (nextTimer s),
       nextTimer := nextTimer s + 1\<rparr>"

text \<open>The language of line 234.\<close>

definition myLanguage :: "page_env \<Rightarrow> string" where
  "myLanguage env = or_else (localStorage env ''listenerLanguage'') ''en''"

text \<open>The effect on \<^verbatim>\<open>dataMessages\<close> (lines 225 to 278), up to the fetch.\<close>

definition captionEffect :: "page_env \<Rightarrow> caption_state \<Rightarrow> caption_msg list \<Rightarrow> caption_state" where
  "captionEffect env s dataMessages =
     (if dataMessages = [] then s
      else
        let lastMsg = last dataMessages
        in if msg_type lastMsg = ''caption'' \<and> truthy (msg_text lastMsg) \<and> trim (textOf lastMsg) \<noteq> [] then
             (let s1 = s\<lparr>captionText := [], messages := [],
                         timers := (case captionTimeoutRef s of
                                      None \<Rightarrow> timers s
                                    | Some t \<Rightarrow> removeAll t (timers s))\<rparr>
              in if role env = ''listener'' then
                   s1\<lparr>translating := (nextRequest s1, lastMsg, myLanguage env) # translating s1,
                      nextRequest := nextRequest s1 + 1,
                      emitted := emitted s1 @
                        [TranslateRequest (nextRequest s1) (textOf lastMsg) (myLanguage env) ''auto'']\<rparr>
                 else
                   setCaptionTimeout (s1\<lparr>captionText := textOf lastMsg, messages := [lastMsg]\<rparr>))
           else s)"

text \<open>The \<^verbatim>\<open>then\<close> and \<^verbatim>\<open>catch\<close> handlers of the translation request.\<close>

definition translateSettled :: "caption_state \<Rightarrow> nat \<Rightarrow> translate_outcome \<Rightarrow> caption_state" where
  "translateSettled s i outcome =
     (case map_of (translating s) i of
        None \<Rightarrow> s
      | Some (lastMsg, lang) \<Rightarrow>
          let s1 = s\<lparr>translating := filter (\<lambda>e. fst e \<noteq> i) (translating s)\<rparr>
          in (case outcome of
                TranslateData data \<Rightarrow>
                  let translatedText = or_else data (textOf lastMsg);
                      s2 = setCaptionTimeout
                             (s1\<lparr>captionText := translatedText,
                                 messages := [lastMsg\<lparr>msg_text := Some translatedText, msg_language := lang\<rparr>]\<rparr>)
                  in s2\<lparr>speaking := speaking s2 @ [nextRequest s2],
                        nextRequest := nextRequest s2 + 1,
                        emitted := emitted s2 @ [TtsRequest (nextRequest s2) translatedText lang]\<rparr>
              | _ \<Rightarrow>
                  setCaptionTimeout
                    (s1\<lparr>captionText := textOf lastMsg, messages := [lastMsg\<lparr>msg_language := lang\<rparr>]\<rparr>)))"

definition ttsSettled :: "caption_state \<Rightarrow> nat \<Rightarrow> tts_outcome \<Rightarrow> caption_state" where
  "ttsSettled s i outcome =
     (if i \<in> set (speaking s) then
        (let s1 = s\<lparr>speaking := removeAll i (speaking s)\<rparr>
         in case outcome of
              TtsData (Some audioContent) \<Rightarrow>
                if audioContent \<noteq> [] then s1\<lparr>emitted := emitted s1 @ [PlayAudio audioContent]\<rparr> else s1
            | _ \<Rightarrow> s1)
      else s)"

definition timerFired :: "caption_state \<Rightarrow> nat \<Rightarrow> caption_state" where
  "timerFired s t =
     (if t \<in> set (timers s) then s\<lparr>timers := removeAll t (timers s), captionText := []\<rparr> else s)"

datatype caption_event =
    DataMessages "caption_msg list"
  | TranslateSettled nat translate_outcome
  | TtsSettled nat tts_outcome
  | TimerFired nat

fun caption_step :: "page_env \<Rightarrow> caption_state \<Rightarrow> caption_event \<Rightarrow> caption_state" where
  "caption_step env s (DataMessages dataMessages) = captionEffect env s dataMessages"
| "caption_step env s (TranslateSettled i outcome) = translateSettled s i outcome"
| "caption_step env s (TtsSettled i outcome) = ttsSettled s i outcome"
| "caption_step env s (TimerFired t) = timerFired s t"

definition caption_run :: "page_env \<Rightarrow> caption_state \<Rightarrow> caption_event list \<Rightarrow> caption_state" where
  "caption_run env s evs = foldl (caption_step env) s evs"

text \<open>
  What the caption box shows (lines 596 to 601): the texts of the last five entries of
  \<^verbatim>\<open>messages\<close>. The state \<^verbatim>\<open>captionText\<close> is set by the handlers and not rendered.
\<close>

definition displayCaptions :: "caption_state \<Rightarrow> string list" where
  "displayCaptions s = map textOf (drop (length (messages s) - 5) (messages s))"

definition isTts :: "effect \<Rightarrow> bool" where
  "isTts e = (case e of TtsRequest _ _ _ \<Rightarrow> True | _ \<Rightarrow> False)"

text \<open>Inputs for the examples.\<close>

definition caption :: "string \<Rightarrow> nat \<Rightarrow> caption_msg" where
  "caption t n =
     \<lparr>msg_type = ''caption'', msg_text = Some t, msg_language = ''en-US'', msg_timestamp = n,
      msg_isLocal = False, msg_participantName = ''speaker''\<rparr>"

definition listenerEnv :: "(string \<rightharpoonup> string) \<Rightarrow> string option \<Rightarrow> page_env" where
  "listenerEnv storage profileLanguage =
     \<lparr>localStorage = storage, parseJson = (\<lambda>_. UserObject profileLanguage),
      decodeToken = (\<lambda>_. Some \<lparr>payload_userId = Some ''u2'', payload_id = None, payload_sub = None\<rparr>),
      roomId = Some ''room1'', role = ''listener''\<rparr>"

definition creatorEnv :: page_env where
  "creatorEnv =
     \<lparr>localStorage = [''token'' \<mapsto> ''h.p.s''], parseJson = (\<lambda>_. NonObject),
      decodeToken = (\<lambda>_. Some \<lparr>payload_userId = Some ''u1'', payload_id = None, payload_sub = None\<rparr>),
      roomId = Some ''room1'', role = ''creator''\<rparr>"

section \<open>Notions used in the statements\<close>

text \<open>
  \<open>haveIds\<close>: the check of line 327 passes. \<open>stages\<close>: the suspended invocations, by
  identifier and stage. \<open>permit_inv\<close>: the invariant of a recording: nothing is ever
  put into \<^verbatim>\<open>audioChunksRef\<close>, at most one invocation is suspended, it is one of the
  message handler, and the permit is held exactly while it is suspended.
\<close>

definition haveIds :: "page_env \<Rightarrow> bool" where
  "haveIds env = (truthy (getUserId env) \<and> truthy (roomId env))"

definition stages :: "capture_state \<Rightarrow> (nat \<times> stage) list" where
  "stages s = map (\<lambda>q. (call_id q, call_stage q)) (inflight s)"

definition permit_inv :: "capture_state \<Rightarrow> bool" where
  "permit_inv s =
     (audioChunksRef s = [] \<and> length (inflight s) \<le> 1
      \<and> isProcessingAudio s = (inflight s \<noteq> [])
      \<and> list_all (\<lambda>p. call_caller p = FromWorklet) (inflight s))"

definition helloResult :: fetch_outcome where
  "helloResult =
     ResultObject \<lparr>result_text = Some ''hello'', result_language = None,
       result_audioContent = Some ''QQ==''\<rparr>"

text \<open>
  \<open>pending s i m lang\<close>: the translation request \<open>i\<close> has not settled, and its closure
  holds the message \<open>m\<close> and the language \<open>lang\<close>. \<open>settles i e\<close>: the event \<open>e\<close> settles
  the translation request \<open>i\<close>. \<open>translationFailed\<close>: the request did not deliver a
  translated text (it was rejected, or its body was not JSON, or \<^verbatim>\<open>null\<close>, or had no
  \<^verbatim>\<open>translatedText\<close>).
\<close>

definition pending :: "caption_state \<Rightarrow> nat \<Rightarrow> caption_msg \<Rightarrow> string \<Rightarrow> bool" where
  "pending s i m lang = (map_of (translating s) i = Some (m, lang) \<and> i < nextRequest s)"

definition settles :: "nat \<Rightarrow> caption_event \<Rightarrow> bool" where
  "settles i e = (case e of TranslateSettled j _ \<Rightarrow> j = i | _ \<Rightarrow> False)"

definition translationFailed :: "translate_outcome \<Rightarrow> bool" where
  "translationFailed outcome = (case outcome of TranslateData data \<Rightarrow> \<not> truthy data | _ \<Rightarrow> True)"

section \<open>Properties of the encoder\<close>













section \<open>The permit of a recording\<close>

lemma permit_inv_start: "permit_inv startSpeech"
  by (simp add: permit_inv_def startSpeech_def)

lemma permit_inv_resume: "permit_inv s \<Longrightarrow> permit_inv (resume FromWorklet s)"
  by (simp add: permit_inv_def)

lemma permit_inv_processAudioChunk:
  assumes "permit_inv s"
  shows "permit_inv (fst (processAudioChunk env s b i t FromWorklet))"
  using assms
  by (auto simp: permit_inv_def processAudioChunk_def Let_def split: option.splits)

lemma permit_inv_onmessage:
  assumes "permit_inv s"
  shows "permit_inv (onmessage env s chunk)"
proof -
  have upd: "permit_inv (s\<lparr>audioBuffer := a, bufferSize := n\<rparr>)" for a n
    using assms by (simp add: permit_inv_def)
  have upd2: "permit_inv (s\<lparr>audioBuffer := a, bufferSize := n, overlapBuffer := ov\<rparr>)" for a n ov
    using assms by (simp add: permit_inv_def)
  show ?thesis
    unfolding onmessage_def Let_def
    using upd upd2 permit_inv_processAudioChunk [OF upd2] permit_inv_resume
    by (auto split: prod.splits simp del: resume.simps) (metis fst_conv)+
qed

lemma findCall_single:
  assumes "findCall s i = Some p" and "length (inflight s) \<le> 1"
  shows "inflight s = [p] \<and> call_id p = i"
proof -
  from assms(1) have "p \<in> set (inflight s)" and "call_id p = i"
    unfolding findCall_def by (auto simp: find_Some_iff)
  moreover from assms(2) have "inflight s = [] \<or> (\<exists>q. inflight s = [q])"
    by (cases "inflight s") auto
  ultimately show ?thesis by auto
qed

lemma permit_inv_finish:
  assumes "permit_inv s" and "findCall s i = Some p"
  shows "permit_inv (finish p s)" and "inflight (finish p s) = []"
    and "\<not> isProcessingAudio (finish p s)"
proof -
  from assms have single: "inflight s = [p]" and "call_caller p = FromWorklet"
    using findCall_single [of s i p] by (auto simp: permit_inv_def)
  then show "permit_inv (finish p s)" and "inflight (finish p s) = []"
    and "\<not> isProcessingAudio (finish p s)"
    using assms(1) by (simp_all add: finish_def permit_inv_def)
qed

lemma permit_inv_outbox: "permit_inv (s\<lparr>outbox := es\<rparr>) = permit_inv s"
  by (simp add: permit_inv_def)

lemma findCall_outbox: "findCall (s\<lparr>outbox := es\<rparr>) i = findCall s i"
  by (simp add: findCall_def)

lemma permit_inv_caught:
  assumes "permit_inv s" and "findCall s i = Some p"
  shows "permit_inv (caught p s)" and "inflight (caught p s) = []"
    and "\<not> isProcessingAudio (caught p s)"
  unfolding caught_def
  using permit_inv_finish [of "s\<lparr>outbox := outbox s @ [ToastError ''Failed to process audio'']\<rparr>" i p] assms
  by (simp_all add: permit_inv_outbox findCall_outbox)

lemma permit_inv_blobRead:
  assumes "permit_inv s"
  shows "permit_inv (blobRead env s i ok)"
proof (cases "findCall s i")
  case None
  then show ?thesis using assms by (simp add: blobRead_def)
next
  case (Some p)
  from findCall_single [OF Some] assms have single: "inflight s = [p]" "call_id p = i"
    by (auto simp: permit_inv_def)
  show ?thesis
    using assms permit_inv_caught(1) [OF assms Some] single
    by (auto simp: blobRead_def Some permit_inv_def)
qed

lemma permit_inv_fetchSettled:
  assumes "permit_inv s"
  shows "permit_inv (fetchSettled env s i outcome)"
proof (cases "findCall s i")
  case None
  then show ?thesis using assms by (simp add: fetchSettled_def)
next
  case (Some p)
  have "permit_inv (finish p (s\<lparr>outbox := es\<rparr>))" for es
    using permit_inv_finish(1) [of "s\<lparr>outbox := es\<rparr>" i p] assms Some
    by (simp add: permit_inv_outbox findCall_outbox)
  then show ?thesis
    using assms permit_inv_caught(1) [OF assms Some]
    by (auto simp: fetchSettled_def Some split: fetch_outcome.splits)
qed

lemma permit_inv_stopSpeech:
  assumes "permit_inv s"
  shows "permit_inv (stopSpeech env s)"
  using assms by (simp add: stopSpeech_def stopTail_def permit_inv_def)

lemma permit_inv_step:
  assumes "permit_inv s"
  shows "permit_inv (capture_step env s e)"
  using assms
  by (cases e)
    (simp_all add: permit_inv_onmessage permit_inv_blobRead permit_inv_fetchSettled permit_inv_stopSpeech)

lemma permit_inv_run:
  assumes "permit_inv s"
  shows "permit_inv (capture_run env s evs)"
  using assms unfolding capture_run_def
  by (induction evs arbitrary: s) (simp_all add: permit_inv_step)

lemma permit_inv_recording: "permit_inv (capture_run env startSpeech evs)"
  by (rule permit_inv_run [OF permit_inv_start])

lemma processAudioChunk_busy:
  assumes "isProcessingAudio s"
  shows "processAudioChunk env s b k t w = (s\<lparr>calls := calls s @ [(k, t)]\<rparr>, True)"
  using assms by (simp add: processAudioChunk_def)

lemma processAudioChunk_free:
  assumes "\<not> isProcessingAudio s"
  shows "snd (processAudioChunk env s b k t w) = (\<not> haveIds env)"
    and "isProcessingAudio (fst (processAudioChunk env s b k t w)) = haveIds env"
  using assms
  by (auto simp: processAudioChunk_def haveIds_def truthy_def Let_def split: option.splits)

lemma onmessage_busy:
  assumes "isProcessingAudio s" and "audioContextRef s"
    and "targetBufferSize \<le> bufferSize s + length chunk"
  shows "inflight (onmessage env s chunk) = inflight s"
    and "outbox (onmessage env s chunk) = outbox s"
    and "audioBuffer (onmessage env s chunk) = []"
    and "bufferSize (onmessage env s chunk) = 0"
  using assms by (simp_all add: onmessage_def Let_def processAudioChunk_busy)

lemma creator_ids: "getUserId creatorEnv = Some ''u1''" "roomId creatorEnv = Some ''room1''"
  by (simp_all add: creatorEnv_def getUserId_def truthy_def)

lemma creator_haveIds: "haveIds creatorEnv"
  by (simp add: haveIds_def creator_ids truthy_def)

lemma length_silence: "length (silence n) = n"
  by (simp add: silence_def)

lemma first_window:
  "stages (capture_run creatorEnv startSpeech [Frame (silence 32000)]) = [(0, ReadingBlob)]"
  "audioContextRef (capture_run creatorEnv startSpeech [Frame (silence 32000)])"
  "bufferSize (capture_run creatorEnv startSpeech [Frame (silence 32000)]) = 32000"
  by (simp_all add: capture_run_def onmessage_def startSpeech_def length_silence creator_ids stages_def
      processAudioChunk_def targetBufferSize_def overlapSize_def Let_def)

lemma first_window_sent:
  "stages (capture_run creatorEnv startSpeech [Frame (silence 32000), BlobRead 0 True]) = [(0, Fetching)]"
  by (simp add: capture_run_def onmessage_def startSpeech_def length_silence creator_ids stages_def
      processAudioChunk_def targetBufferSize_def overlapSize_def Let_def blobRead_def findCall_def)

text \<open>
  C1. In a recording, whatever frames, responses and stops arrive in whatever order, at
  most one invocation of \<^verbatim>\<open>processAudioChunk\<close> is suspended (in flight) at any time, and
  the permit is held exactly then. While one is in flight, a further invocation returns
  at once and changes nothing but the trace of invocations: no request is logged and
  nothing is added to the suspended invocations. When the message handler makes that
  invocation for a full buffer, the requests and the suspended invocations stay as they
  are and the buffer is emptied: the chunk is dropped, not kept for later.
\<close>

theorem single_submission_in_flight:
  assumes "s = capture_run env startSpeech evs"
  shows "length (inflight s) \<le> 1
    \<and> isProcessingAudio s = (inflight s \<noteq> [])
    \<and> (inflight s \<noteq> [] \<longrightarrow>
         processAudioChunk env s blob k t w = (s\<lparr>calls := calls s @ [(k, t)]\<rparr>, True))
    \<and> (inflight s \<noteq> [] \<and> audioContextRef s \<and> targetBufferSize \<le> bufferSize s + length chunk \<longrightarrow>
         inflight (capture_step env s (Frame chunk)) = inflight s
         \<and> outbox (capture_step env s (Frame chunk)) = outbox s
         \<and> audioBuffer (capture_step env s (Frame chunk)) = [])"
proof -
  have inv: "permit_inv s"
    unfolding assms by (rule permit_inv_recording)
  then have "length (inflight s) \<le> 1" and busy: "isProcessingAudio s = (inflight s \<noteq> [])"
    by (simp_all add: permit_inv_def)
  then show ?thesis
    by (simp add: processAudioChunk_busy onmessage_busy)
qed

text \<open>
  The theorem of C1 at a recording whose first window of 32000 samples has been handed
  to \<^verbatim>\<open>processAudioChunk\<close>: one invocation is in flight, a second one returns at once,
  and the next frame is dropped with the buffer emptied.
\<close>

theorem single_submission_in_flight_witness:
  "inflight (capture_run creatorEnv startSpeech [Frame (silence 32000)]) \<noteq> []
   \<and> snd (processAudioChunk creatorEnv (capture_run creatorEnv startSpeech [Frame (silence 32000)])
            [] 1 (- 1) FromWorklet)
   \<and> audioContextRef (capture_run creatorEnv startSpeech [Frame (silence 32000)])
   \<and> targetBufferSize \<le> bufferSize (capture_run creatorEnv startSpeech [Frame (silence 32000)]) + length (silence 1)
   \<and> audioBuffer (capture_run creatorEnv startSpeech [Frame (silence 32000), Frame (silence 1)]) = []
   \<and> length (inflight (capture_run creatorEnv startSpeech [Frame (silence 32000), Frame (silence 1)])) = 1"
proof -
  let ?s = "capture_run creatorEnv startSpeech [Frame (silence 32000)]"
  have ne: "inflight ?s \<noteq> []"
    using first_window(1) by (auto simp: stages_def)
  have ctx: "audioContextRef ?s" and full: "targetBufferSize \<le> bufferSize ?s + length (silence 1)"
    by (simp_all add: first_window targetBufferSize_def)
  have run: "capture_run creatorEnv startSpeech [Frame (silence 32000), Frame (silence 1)]
      = capture_step creatorEnv ?s (Frame (silence 1))"
    by (simp add: capture_run_def)
  from single_submission_in_flight [of ?s creatorEnv "[Frame (silence 32000)]" "[]" 1 "- 1" FromWorklet "silence 1"]
    ne ctx full
  have "length (inflight ?s) \<le> 1"
    and "processAudioChunk creatorEnv ?s [] 1 (- 1) FromWorklet = (?s\<lparr>calls := calls ?s @ [(1, - 1)]\<rparr>, True)"
    and "inflight (capture_step creatorEnv ?s (Frame (silence 1))) = inflight ?s"
    and "audioBuffer (capture_step creatorEnv ?s (Frame (silence 1))) = []"
    by simp_all
  with ne ctx full run show ?thesis
    by (cases "inflight ?s") simp_all
qed

lemma stages_single:
  assumes "stages s = [(i, st)]"
  shows "\<exists>p. inflight s = [p] \<and> call_id p = i \<and> call_stage p = st \<and> findCall s i = Some p"
  using assms by (cases "inflight s") (auto simp: stages_def findCall_def)

text \<open>
  C7. In a recording, an invocation of \<^verbatim>\<open>processAudioChunk\<close> that holds the permit
  releases it however it ends. If it is suspended on reading the blob and that fails,
  the permit is free afterwards; if the blob is read, the invocation goes on to the
  fetch. If it is suspended on the fetch, the permit is free after every outcome: the
  fetch rejected, a status that is not OK, a body that is not JSON or is \<^verbatim>\<open>null\<close>, or a
  result. And whenever the permit is free, an invocation either holds it and is
  suspended (user and room are known) or returns at once with the permit free again
  (user or room missing): the permit does not leak and the next submission acquires it.
\<close>

theorem permit_released_on_every_exit:
  assumes "s = capture_run env startSpeech evs"
  shows "(stages s = [(i, ReadingBlob)] \<longrightarrow>
            \<not> isProcessingAudio (capture_step env s (BlobRead i False))
            \<and> stages (capture_step env s (BlobRead i True)) = [(i, Fetching)])
    \<and> (stages s = [(i, Fetching)] \<longrightarrow>
            (\<forall>outcome. \<not> isProcessingAudio (capture_step env s (FetchSettled i outcome))))
    \<and> (\<not> isProcessingAudio s \<longrightarrow>
            snd (processAudioChunk env s blob k t w) = (\<not> haveIds env)
            \<and> isProcessingAudio (fst (processAudioChunk env s blob k t w)) = haveIds env)"
proof -
  have inv: "permit_inv s"
    unfolding assms by (rule permit_inv_recording)
  have reading: "\<not> isProcessingAudio (capture_step env s (BlobRead i False))
      \<and> stages (capture_step env s (BlobRead i True)) = [(i, Fetching)]"
    if "stages s = [(i, ReadingBlob)]"
  proof -
    from stages_single [OF that] obtain p where p: "inflight s = [p]" "call_id p = i"
      "call_stage p = ReadingBlob" "findCall s i = Some p"
      by blast
    from permit_inv_caught(3) [OF inv p(4)] p show ?thesis
      by (simp add: blobRead_def stages_def)
  qed
  have fetching: "\<not> isProcessingAudio (capture_step env s (FetchSettled i outcome))"
    if "stages s = [(i, Fetching)]" for outcome
  proof -
    from stages_single [OF that] obtain p where p: "inflight s = [p]" "call_id p = i"
      "call_stage p = Fetching" "findCall s i = Some p"
      by blast
    have "\<not> isProcessingAudio (finish p (s\<lparr>outbox := es\<rparr>))" for es
      using permit_inv_finish(3) [of "s\<lparr>outbox := es\<rparr>" i p] inv p(4)
      by (simp add: permit_inv_outbox findCall_outbox)
    with permit_inv_caught(3) [OF inv p(4)] p show ?thesis
      by (cases outcome) (simp_all add: fetchSettled_def)
  qed
  from reading fetching show ?thesis
    by (simp add: processAudioChunk_free)
qed

text \<open>
  The theorem of C7 at a recording whose first window is in flight: the permit is free
  after a failed blob read, and after a response with status 500; the next invocation
  then acquires it.
\<close>

theorem permit_released_on_every_exit_witness:
  "stages (capture_run creatorEnv startSpeech [Frame (silence 32000)]) = [(0, ReadingBlob)]
   \<and> \<not> isProcessingAudio (capture_run creatorEnv startSpeech [Frame (silence 32000), BlobRead 0 False])
   \<and> stages (capture_run creatorEnv startSpeech [Frame (silence 32000), BlobRead 0 True]) = [(0, Fetching)]
   \<and> \<not> isProcessingAudio
        (capture_run creatorEnv startSpeech [Frame (silence 32000), BlobRead 0 True, FetchSettled 0 (NotOk 500)])
   \<and> \<not> snd (processAudioChunk creatorEnv
        (capture_run creatorEnv startSpeech [Frame (silence 32000), BlobRead 0 True, FetchSettled 0 (NotOk 500)])
        [] 2 (- 1) FromWorklet)"
proof -
  let ?a = "capture_run creatorEnv startSpeech [Frame (silence 32000)]"
  let ?b = "capture_run creatorEnv startSpeech [Frame (silence 32000), BlobRead 0 True]"
  let ?c = "capture_run creatorEnv startSpeech [Frame (silence 32000), BlobRead 0 True, FetchSettled 0 (NotOk 500)]"
  note sa = first_window(1)
  have ra: "capture_run creatorEnv startSpeech [Frame (silence 32000), BlobRead 0 False]
      = capture_step creatorEnv ?a (BlobRead 0 False)"
    and rc: "?c = capture_step creatorEnv ?b (FetchSettled 0 (NotOk 500))"
    by (simp_all add: capture_run_def)
  from permit_released_on_every_exit [of ?a creatorEnv "[Frame (silence 32000)]" 0] sa
  have a: "\<not> isProcessingAudio (capture_step creatorEnv ?a (BlobRead 0 False))"
    by simp
  from permit_released_on_every_exit [of ?b creatorEnv "[Frame (silence 32000), BlobRead 0 True]" 0]
    first_window_sent
  have b: "\<not> isProcessingAudio (capture_step creatorEnv ?b (FetchSettled 0 (NotOk 500)))"
    by simp
  from permit_released_on_every_exit
    [of ?c creatorEnv "[Frame (silence 32000), BlobRead 0 True, FetchSettled 0 (NotOk 500)]" 0 "[]" 2 "- 1" FromWorklet]
    b creator_haveIds
  have c: "\<not> snd (processAudioChunk creatorEnv ?c [] 2 (- 1) FromWorklet)"
    by (simp add: rc)
  from sa a b c first_window_sent show ?thesis
    by (simp add: ra rc)
qed

section \<open>The final chunk and the chunk indices\<close>

lemma audioChunksRef_empty: "audioChunksRef (capture_run env startSpeech evs) = []"
  using permit_inv_recording [of env evs] by (simp add: permit_inv_def)

text \<open>
  C2 does not hold of the code. The message handler collects the samples in its own
  \<^verbatim>\<open>audioBuffer\<close>, while \<^verbatim>\<open>stopSpeech\<close> flushes \<^verbatim>\<open>audioChunksRef\<close>, into which nothing is
  ever put. So, after any recording, \<^verbatim>\<open>stopSpeech\<close> invokes \<^verbatim>\<open>processAudioChunk\<close> not at
  all and sends no request. After one frame of 128 samples the remainder of 128 samples
  is there, and stopping sends nothing: the log holds the two notifications only.
\<close>

theorem stopSpeech_sends_no_final_chunk:
  "calls (stopSpeech env (capture_run env startSpeech evs)) = calls (capture_run env startSpeech evs)
   \<and> requests (outbox (stopSpeech env (capture_run env startSpeech evs)))
       = requests (outbox (capture_run env startSpeech evs))
   \<and> inflight (stopSpeech env (capture_run env startSpeech evs))
       = inflight (capture_run env startSpeech evs)
   \<and> bufferSize (capture_run creatorEnv startSpeech [Frame (silence 128)]) = 128
   \<and> calls (capture_run creatorEnv startSpeech [Frame (silence 128), Stop]) = []
   \<and> outbox (capture_run creatorEnv startSpeech [Frame (silence 128), Stop])
       = [ToastSuccess ''Recording started (WAV format)'', ToastSuccess ''Recording stopped'']"
proof -
  have general: "calls (stopSpeech env s) = calls s
      \<and> requests (outbox (stopSpeech env s)) = requests (outbox s)
      \<and> inflight (stopSpeech env s) = inflight s"
    if "audioChunksRef s = []" for s
    using that by (simp add: stopSpeech_def stopTail_def requests_def)
  have "bufferSize (capture_run creatorEnv startSpeech [Frame (silence 128)]) = 128"
    and "calls (capture_run creatorEnv startSpeech [Frame (silence 128), Stop]) = []"
    and "outbox (capture_run creatorEnv startSpeech [Frame (silence 128), Stop])
       = [ToastSuccess ''Recording started (WAV format)'', ToastSuccess ''Recording stopped'']"
    by (simp_all add: capture_run_def onmessage_def startSpeech_def length_silence
        targetBufferSize_def stopSpeech_def stopTail_def Let_def)
  with general [OF audioChunksRef_empty] show ?thesis
    by simp
qed

lemma frames_accumulate:
  assumes "bufferSize s + n * length chunk < targetBufferSize"
  shows "capture_run env s (replicate n (Frame chunk))
     = s\<lparr>audioBuffer := audioBuffer s @ replicate n chunk,
         bufferSize := bufferSize s + n * length chunk\<rparr>"
  using assms
proof (induction n arbitrary: s)
  case 0
  then show ?case by (simp add: capture_run_def)
next
  case (Suc n)
  have step: "onmessage env s chunk
      = s\<lparr>audioBuffer := audioBuffer s @ [chunk], bufferSize := bufferSize s + length chunk\<rparr>"
    using Suc.prems by (simp add: onmessage_def Let_def)
  have "capture_run env s (replicate (Suc n) (Frame chunk))
      = capture_run env (onmessage env s chunk) (replicate n (Frame chunk))"
    by (simp add: capture_run_def)
  also have "\<dots> = (onmessage env s chunk)
      \<lparr>audioBuffer := audioBuffer (onmessage env s chunk) @ replicate n chunk,
       bufferSize := bufferSize (onmessage env s chunk) + n * length chunk\<rparr>"
    using Suc.prems by (intro Suc.IH) (simp add: step)
  finally show ?case
    by (simp add: step replicate_app_Cons_same add.assoc)
qed

lemma window_of_small_frames:
  "capture_run creatorEnv startSpeech (replicate 249 (Frame (silence 128)))
     = startSpeech\<lparr>audioBuffer := replicate 249 (silence 128), bufferSize := 31872\<rparr>"
proof -
  have "capture_run creatorEnv startSpeech (replicate 249 (Frame (silence 128)))
     = startSpeech\<lparr>audioBuffer := audioBuffer startSpeech @ replicate 249 (silence 128),
         bufferSize := bufferSize startSpeech + 249 * length (silence 128)\<rparr>"
    by (rule frames_accumulate) (simp add: startSpeech_def length_silence targetBufferSize_def)
  then show ?thesis
    by (simp add: startSpeech_def length_silence)
qed

lemma capture_run_append:
  "capture_run env s (xs @ ys) = capture_run env (capture_run env s xs) ys"
  by (simp add: capture_run_def)

lemma replicate_250: "replicate 250 x = replicate 249 x @ [x]"
proof -
  have "replicate (Suc 249) x = replicate 249 x @ [x]"
    by (simp only: replicate_Suc replicate_append_same)
  moreover have "(250::nat) = Suc 249"
    by simp
  ultimately show ?thesis
    by (simp only:)
qed

lemma requests_append:
  "requests (xs @ ys) = requests xs @ requests ys" "requests [AudioProcessRequest r] = [r]"
  by (simp_all add: requests_def)

text \<open>
  C3 does not hold of the code. The handler reads \<^verbatim>\<open>chunkIndexRef\<close> before the \<^verbatim>\<open>await\<close>
  of \<^verbatim>\<open>processAudioChunk\<close> and advances it after, and it resets its buffer only after
  too. With frames of 128 samples: the 250th frame fills the window and index 0 is
  passed; the next frame, arriving while that request is in flight, finds the buffer
  still full and passes index 0 again (this invocation is dropped, and the index
  becomes 1); when the response arrives the first handler advances the index to 2. The
  next window passes index 2: the indices passed are 0, 0, 2 and the indices sent are
  0, 2.
\<close>

theorem chunk_index_repeats_and_skips:
  "map fst (calls (capture_run creatorEnv startSpeech
      (replicate 250 (Frame (silence 128)) @ [Frame (silence 128)]))) = [0, 0]
   \<and> map fst (calls (capture_run creatorEnv startSpeech
      (replicate 250 (Frame (silence 128))
       @ [Frame (silence 128), BlobRead 0 True, FetchSettled 0 helloResult]
       @ replicate 250 (Frame (silence 128)) @ [BlobRead 1 True]))) = [0, 0, 2]
   \<and> map req_chunkIndex (requests (outbox (capture_run creatorEnv startSpeech
      (replicate 250 (Frame (silence 128))
       @ [Frame (silence 128), BlobRead 0 True, FetchSettled 0 helloResult]
       @ replicate 250 (Frame (silence 128)) @ [BlobRead 1 True])))) = [0, 2]"
proof -
  let ?f = "Frame (silence 128)"
  let ?w = "startSpeech\<lparr>audioBuffer := replicate 249 (silence 128), bufferSize := 31872\<rparr>"
  note defs = capture_run_def onmessage_def startSpeech_def length_silence creatorEnv_def
      processAudioChunk_def getUserId_def truthy_def targetBufferSize_def overlapSize_def Let_def
      length_concat sum_list_replicate blobRead_def fetchSettled_def findCall_def finish_def
      handleResult_def helloResult_def trim_def isWhiteSpace_def
  have first: "capture_run creatorEnv startSpeech (replicate 250 ?f @ [?f])
      = capture_run creatorEnv ?w [?f, ?f]"
    by (simp add: replicate_250 capture_run_append window_of_small_frames)
  have one: "map fst (calls (capture_run creatorEnv ?w [?f, ?f])) = [0, 0]"
    by (simp add: defs del: concat_append)
  let ?s2 = "capture_run creatorEnv ?w [?f, ?f, BlobRead 0 True, FetchSettled 0 helloResult]"
  have s2: "bufferSize ?s2 = 0" "audioBuffer ?s2 = []" "chunkIndexRef ?s2 = 2"
    "\<not> isProcessingAudio ?s2" "audioContextRef ?s2" "calls ?s2 = [(0, - 1), (0, - 1)]"
    "map req_chunkIndex (requests (outbox ?s2)) = [0]" "nextCall ?s2 = 1" "inflight ?s2 = []"
    by (simp_all add: defs requests_def del: concat_append)
  have second: "capture_run creatorEnv ?s2 (replicate 249 ?f)
      = ?s2\<lparr>audioBuffer := audioBuffer ?s2 @ replicate 249 (silence 128),
           bufferSize := bufferSize ?s2 + 249 * length (silence 128)\<rparr>"
    by (rule frames_accumulate) (simp add: s2 length_silence targetBufferSize_def)
  have whole: "capture_run creatorEnv startSpeech
      (replicate 250 ?f @ [?f, BlobRead 0 True, FetchSettled 0 helloResult]
       @ replicate 250 ?f @ [BlobRead 1 True])
      = capture_run creatorEnv (capture_run creatorEnv ?s2 (replicate 249 ?f)) [?f, BlobRead 1 True]"
  proof -
    have "replicate 250 ?f @ [?f, BlobRead 0 True, FetchSettled 0 helloResult]
          @ replicate 250 ?f @ [BlobRead 1 True]
        = replicate 249 ?f @ ([?f, ?f, BlobRead 0 True, FetchSettled 0 helloResult]
          @ (replicate 249 ?f @ [?f, BlobRead 1 True]))"
      by (simp add: replicate_250)
    then show ?thesis
      by (simp only: capture_run_append window_of_small_frames)
  qed
  have two: "map fst (calls (capture_run creatorEnv
          (capture_run creatorEnv ?s2 (replicate 249 ?f)) [?f, BlobRead 1 True])) = [0, 0, 2]"
    and three: "map req_chunkIndex (requests (outbox (capture_run creatorEnv
          (capture_run creatorEnv ?s2 (replicate 249 ?f)) [?f, BlobRead 1 True]))) = [0, 2]"
    unfolding second
    by (simp_all add: s2 capture_run_def [of _ _ "[_, _]"] onmessage_def length_silence creator_ids
        processAudioChunk_def targetBufferSize_def Let_def blobRead_def findCall_def requests_append)
  from one two three show ?thesis
    unfolding first whole by simp
qed

section \<open>Captions\<close>

lemma trim_blank:
  assumes "\<forall>c\<in>set t. isWhiteSpace c"
  shows "trim t = []"
proof -
  from assms have blank: "dropWhile isWhiteSpace t = []"
    by (induction t) simp_all
  show ?thesis
    unfolding trim_def blank by simp
qed

lemma trim_nonempty: "trim t \<noteq> [] \<Longrightarrow> t \<noteq> []"
  by (auto simp: trim_def)

text \<open>
  C9. A run of the effect whose last data message has no text, or a text that is empty
  or consists of white space only, leaves the whole caption state as it is: the
  displayed caption, the message history, the timer ref and the pending timers, the
  requests that have not settled and the log of requests.
\<close>

theorem blank_caption_ignored:
  assumes "dataMessages \<noteq> []"
    and "msg_text (last dataMessages) = None
         \<or> (\<exists>t. msg_text (last dataMessages) = Some t \<and> (\<forall>c\<in>set t. isWhiteSpace c))"
  shows "caption_step env s (DataMessages dataMessages) = s"
  using assms by (auto simp: captionEffect_def Let_def truthy_def textOf_def trim_blank)

text \<open>
  The theorem of C9 at a listener who sees the caption \<open>hola\<close> when a message with the
  text of one space arrives: the state, with its caption \<open>hola\<close>, stays.
\<close>

theorem blank_caption_ignored_witness:
  "caption_step (listenerEnv Map.empty None)
      (caption_run (listenerEnv Map.empty None) noCaption
         [DataMessages [caption ''hello'' 1], TranslateSettled 0 (TranslateData (Some ''hola''))])
      (DataMessages [caption ''hello'' 1, caption '' '' 2])
    = caption_run (listenerEnv Map.empty None) noCaption
         [DataMessages [caption ''hello'' 1], TranslateSettled 0 (TranslateData (Some ''hola''))]
   \<and> captionText (caption_run (listenerEnv Map.empty None) noCaption
         [DataMessages [caption ''hello'' 1], TranslateSettled 0 (TranslateData (Some ''hola''))]) = ''hola''"
proof -
  have blank: "\<forall>c\<in>set '' ''. isWhiteSpace c"
    by (simp add: isWhiteSpace_def)
  have "caption_step (listenerEnv Map.empty None)
      (caption_run (listenerEnv Map.empty None) noCaption
         [DataMessages [caption ''hello'' 1], TranslateSettled 0 (TranslateData (Some ''hola''))])
      (DataMessages [caption ''hello'' 1, caption '' '' 2])
    = caption_run (listenerEnv Map.empty None) noCaption
         [DataMessages [caption ''hello'' 1], TranslateSettled 0 (TranslateData (Some ''hola''))]"
    by (rule blank_caption_ignored) (simp_all add: caption_def blank)
  moreover have "captionText (caption_run (listenerEnv Map.empty None) noCaption
         [DataMessages [caption ''hello'' 1], TranslateSettled 0 (TranslateData (Some ''hola''))]) = ''hola''"
    by (simp add: caption_run_def captionEffect_def translateSettled_def noCaption_def caption_def
        listenerEnv_def truthy_def textOf_def trim_def isWhiteSpace_def myLanguage_def or_else_def
        setCaptionTimeout_def Let_def)
  ultimately show ?thesis
    by simp
qed

lemma map_of_filter_fst:
  "map_of (filter (\<lambda>e. fst e \<noteq> j) xs) i = (if i = j then None else map_of xs i)"
  by (induction xs) auto

lemma pending_step:
  assumes "pending s i m lang" and "\<not> settles i e"
  shows "pending (caption_step env s e) i m lang"
proof (cases e)
  case (DataMessages dm)
  with assms show ?thesis
    by (auto simp: pending_def captionEffect_def Let_def setCaptionTimeout_def)
next
  case (TranslateSettled j outcome)
  with assms have "j \<noteq> i"
    by (simp add: settles_def)
  with assms(1) TranslateSettled show ?thesis
    by (auto simp: pending_def translateSettled_def Let_def setCaptionTimeout_def map_of_filter_fst
        split: option.splits translate_outcome.splits)
next
  case (TtsSettled j outcome)
  with assms show ?thesis
    by (auto simp: pending_def ttsSettled_def Let_def split: tts_outcome.splits option.splits)
next
  case (TimerFired t)
  with assms show ?thesis
    by (auto simp: pending_def timerFired_def)
qed

lemma pending_run:
  assumes "pending s i m lang" and "list_all (\<lambda>e. \<not> settles i e) evs"
  shows "pending (caption_run env s evs) i m lang"
  using assms unfolding caption_run_def
  by (induction evs arbitrary: s) (simp_all add: pending_step)

lemma pending_captionEffect:
  assumes "role env = ''listener''" and "dataMessages \<noteq> []"
    and "msg_type (last dataMessages) = ''caption''"
    and "msg_text (last dataMessages) = Some t" and "trim t \<noteq> []"
  shows "pending (captionEffect env s dataMessages) (nextRequest s) (last dataMessages) (myLanguage env)"
  using assms trim_nonempty [of t]
  by (simp add: pending_def captionEffect_def Let_def truthy_def textOf_def)

lemma failure_shows_source:
  assumes "pending s i m lang" and "translationFailed outcome"
  shows "captionText (translateSettled s i outcome) = textOf m"
    and "captionTimeoutRef (translateSettled s i outcome) = Some (nextTimer s)"
    and "nextTimer s \<in> set (timers (translateSettled s i outcome))"
proof -
  from assms(1) have m: "map_of (translating s) i = Some (m, lang)"
    by (simp add: pending_def)
  from assms(2) have o: "or_else data (textOf m) = textOf m" if "outcome = TranslateData data" for data
    using that by (auto simp: translationFailed_def truthy_def or_else_def split: option.splits)
  show "captionText (translateSettled s i outcome) = textOf m"
    using m o by (cases outcome) (simp_all add: translateSettled_def setCaptionTimeout_def Let_def)
  show "captionTimeoutRef (translateSettled s i outcome) = Some (nextTimer s)"
    using m by (cases outcome) (simp_all add: translateSettled_def setCaptionTimeout_def Let_def)
  show "nextTimer s \<in> set (timers (translateSettled s i outcome))"
    using m by (cases outcome) (simp_all add: translateSettled_def setCaptionTimeout_def Let_def)
qed

lemma failure_keeps_message:
  assumes "pending s i m lang" and "translationFailed outcome" and "msg_text m = Some t"
  shows "messages (translateSettled s i outcome) = [m\<lparr>msg_language := lang\<rparr>]"
proof -
  from assms(1) have m: "map_of (translating s) i = Some (m, lang)"
    by (simp add: pending_def)
  from assms(3) have same: "m\<lparr>msg_text := Some t\<rparr> = m"
    by (cases m) simp
  show ?thesis
  proof (cases outcome)
    case (TranslateData data)
    with assms(2,3) have "or_else data (textOf m) = t"
      by (auto simp: translationFailed_def truthy_def or_else_def textOf_def split: option.splits)
    with m TranslateData same show ?thesis
      by (simp add: translateSettled_def setCaptionTimeout_def Let_def)
  qed (simp_all add: m translateSettled_def setCaptionTimeout_def Let_def)
qed

text \<open>
  C5. A listener processes a caption event with the text \<open>t\<close> (the effect accepts it, so
  \<open>t\<close> is not blank); whatever else happens before its translation request settles, when
  that request fails the message history is the one event, with its source text \<open>t\<close>
  and the listener's language, so the caption box shows exactly \<open>t\<close>, which is not
  empty; the caption state is \<open>t\<close> as well, and a new expiry timer is pending and held
  in the ref.
\<close>

theorem translation_failure_shows_source_text:
  assumes "role env = ''listener''" and "dataMessages \<noteq> []"
    and "msg_type (last dataMessages) = ''caption''"
    and "msg_text (last dataMessages) = Some t" and "trim t \<noteq> []"
    and "list_all (\<lambda>e. \<not> settles (nextRequest s) e) evs"
    and "translationFailed outcome"
    and "s' = caption_run env s
           (DataMessages dataMessages # evs @ [TranslateSettled (nextRequest s) outcome])"
  shows "displayCaptions s' = [t]
         \<and> messages s' = [(last dataMessages)\<lparr>msg_language := myLanguage env\<rparr>]
         \<and> captionText s' = t
         \<and> t \<noteq> []
         \<and> (\<exists>n. captionTimeoutRef s' = Some n \<and> n \<in> set (timers s'))"
proof -
  let ?s1 = "captionEffect env s dataMessages"
  let ?s2 = "caption_run env ?s1 evs"
  have p: "pending ?s2 (nextRequest s) (last dataMessages) (myLanguage env)"
    using assms(1-6) by (intro pending_run pending_captionEffect)
  have run: "s' = translateSettled ?s2 (nextRequest s) outcome"
    unfolding assms(8) by (simp add: caption_run_def)
  note f = failure_shows_source [OF p assms(7), folded run]
  note g = failure_keeps_message [OF p assms(7) assms(4), folded run]
  from g assms(4) have "displayCaptions s' = [t]"
    by (simp add: displayCaptions_def textOf_def)
  moreover from f(1) assms(4) have "captionText s' = t"
    by (simp add: textOf_def)
  moreover from f(2,3) have "\<exists>n. captionTimeoutRef s' = Some n \<and> n \<in> set (timers s')"
    by blast
  ultimately show ?thesis
    using g trim_nonempty [OF assms(5)] by simp
qed

text \<open>
  The theorem of C5 at a listener who receives \<open>hello\<close> and whose translation request
  is rejected, a timer event being handled in between: the caption box shows \<open>hello\<close>.
\<close>

theorem translation_failure_shows_source_text_witness:
  "role (listenerEnv Map.empty None) = ''listener''
   \<and> trim ''hello'' \<noteq> []
   \<and> translationFailed TranslateRejected
   \<and> displayCaptions (caption_run (listenerEnv Map.empty None) noCaption
        [DataMessages [caption ''hello'' 1], TimerFired 1, TranslateSettled 0 TranslateRejected])
      = [''hello'']
   \<and> map msg_text (messages (caption_run (listenerEnv Map.empty None) noCaption
        [DataMessages [caption ''hello'' 1], TimerFired 1, TranslateSettled 0 TranslateRejected]))
      = [Some ''hello'']
   \<and> captionText (caption_run (listenerEnv Map.empty None) noCaption
        [DataMessages [caption ''hello'' 1], TimerFired 1, TranslateSettled 0 TranslateRejected])
      = ''hello''"
proof -
  let ?s' = "caption_run (listenerEnv Map.empty None) noCaption
        (DataMessages [caption ''hello'' 1] # [TimerFired 1]
           @ [TranslateSettled (nextRequest noCaption) TranslateRejected])"
  have hyps: "role (listenerEnv Map.empty None) = ''listener''" "[caption ''hello'' 1] \<noteq> []"
    "msg_type (last [caption ''hello'' 1]) = ''caption''"
    "msg_text (last [caption ''hello'' 1]) = Some ''hello''" "trim ''hello'' \<noteq> []"
    "list_all (\<lambda>e. \<not> settles (nextRequest noCaption) e) [TimerFired 1]"
    "translationFailed TranslateRejected"
    by (simp_all add: listenerEnv_def caption_def trim_def isWhiteSpace_def settles_def
        translationFailed_def)
  from translation_failure_shows_source_text [OF hyps refl]
  have "displayCaptions ?s' = [''hello'']"
    and "messages ?s' = [(last [caption ''hello'' 1])\<lparr>msg_language := myLanguage (listenerEnv Map.empty None)\<rparr>]"
    and "captionText ?s' = ''hello''"
    by simp_all
  moreover have "nextRequest noCaption = 0"
    by (simp add: noCaption_def)
  ultimately show ?thesis
    using hyps by (simp add: caption_def)
qed

lemma tts_after_translation_only:
  "emitted (translateSettled s i outcome)
     = emitted s @ (case (map_of (translating s) i, outcome) of
                      (Some (m, lang), TranslateData data) \<Rightarrow>
                        [TtsRequest (nextRequest s) (or_else data (textOf m)) lang]
                    | _ \<Rightarrow> [])"
  by (cases outcome)
    (auto simp: translateSettled_def setCaptionTimeout_def Let_def split: option.splits)

text \<open>
  C10. When the fetch of a translation request is rejected, nothing is added to the log:
  no speech request is made. A settled translation request adds a speech request
  exactly when it was pending and a body was received and read; then it adds one, for
  the displayed text in the language of its closure. No other event (a run of the
  effect, a settled speech request, a timer) adds a speech request.
\<close>

theorem no_speech_request_without_translation:
  "emitted (caption_step env s (TranslateSettled i TranslateRejected)) = emitted s
   \<and> emitted (caption_step env s (TranslateSettled i outcome))
       = emitted s @ (case (map_of (translating s) i, outcome) of
                        (Some (m, lang), TranslateData data) \<Rightarrow>
                          [TtsRequest (nextRequest s) (or_else data (textOf m)) lang]
                      | _ \<Rightarrow> [])
   \<and> filter isTts (emitted (caption_step env s (DataMessages dataMessages))) = filter isTts (emitted s)
   \<and> filter isTts (emitted (caption_step env s (TtsSettled j speech))) = filter isTts (emitted s)
   \<and> filter isTts (emitted (caption_step env s (TimerFired k))) = filter isTts (emitted s)"
proof -
  have "filter isTts (emitted (captionEffect env s dataMessages)) = filter isTts (emitted s)"
    by (simp add: captionEffect_def Let_def setCaptionTimeout_def isTts_def)
  moreover have "filter isTts (emitted (ttsSettled s j speech)) = filter isTts (emitted s)"
    by (cases speech) (auto simp: ttsSettled_def Let_def isTts_def split: option.splits)
  moreover have "emitted (timerFired s k) = emitted s"
    by (simp add: timerFired_def)
  ultimately show ?thesis
    using tts_after_translation_only [of s i outcome] tts_after_translation_only [of s i TranslateRejected]
    by (simp split: option.splits)
qed

text \<open>
  C4 does not hold of the code. A listener with no \<^verbatim>\<open>listenerLanguage\<close> in the storage
  and the language \<open>es-ES\<close> in the stored profile receives \<open>hello\<close>: the translation is
  requested into \<open>en\<close>. The profile is not consulted, and the default is \<open>en\<close>, not the
  default language \<open>en-US\<close> of the helpers. For the same listener
  \<^verbatim>\<open>getTargetLanguageCode\<close>, which the transcription request uses, and \<^verbatim>\<open>getUserLanguage\<close>,
  which the caption heading shows, both give \<open>es-ES\<close>.
\<close>

theorem caption_language_ignores_profile:
  "emitted (caption_run (listenerEnv [''userData'' \<mapsto> ''{language:es-ES}''] (Some ''es-ES'')) noCaption
      [DataMessages [caption ''hello'' 1]])
     = [TranslateRequest 0 ''hello'' ''en'' ''auto'']
   \<and> getTargetLanguageCode (listenerEnv [''userData'' \<mapsto> ''{language:es-ES}''] (Some ''es-ES'')) = ''es-ES''
   \<and> getUserLanguage (listenerEnv [''userData'' \<mapsto> ''{language:es-ES}''] (Some ''es-ES'')) = ''es-ES''"
  by (simp add: caption_run_def captionEffect_def noCaption_def caption_def listenerEnv_def
      truthy_def textOf_def trim_def isWhiteSpace_def myLanguage_def or_else_def Let_def
      getTargetLanguageCode_def getUserLanguage_def getUserData_def getItemLocalStorage_def)

text \<open>
  C6 does not hold of the code. A listener receives the caption \<open>one\<close> and then the
  caption \<open>two\<close>; the translation of \<open>two\<close> arrives first and \<open>dos\<close> is displayed; then
  the translation of the older \<open>one\<close> arrives and \<open>uno\<close> replaces it. The handlers of a
  settled request do not check that their event is still the newest. Both expiry
  timers are then pending, and the ref holds only the second.
\<close>

theorem stale_translation_overwrites_newer_caption:
  "captionText (caption_run (listenerEnv Map.empty None) noCaption
      [DataMessages [caption ''one'' 1],
       DataMessages [caption ''one'' 1, caption ''two'' 2],
       TranslateSettled 1 (TranslateData (Some ''dos''))]) = ''dos''
   \<and> captionText (caption_run (listenerEnv Map.empty None) noCaption
      [DataMessages [caption ''one'' 1],
       DataMessages [caption ''one'' 1, caption ''two'' 2],
       TranslateSettled 1 (TranslateData (Some ''dos'')),
       TranslateSettled 0 (TranslateData (Some ''uno''))]) = ''uno''
   \<and> timers (caption_run (listenerEnv Map.empty None) noCaption
      [DataMessages [caption ''one'' 1],
       DataMessages [caption ''one'' 1, caption ''two'' 2],
       TranslateSettled 1 (TranslateData (Some ''dos'')),
       TranslateSettled 0 (TranslateData (Some ''uno''))]) = [1, 2]"
  by (simp add: caption_run_def captionEffect_def translateSettled_def noCaption_def caption_def
      listenerEnv_def truthy_def textOf_def trim_def isWhiteSpace_def myLanguage_def or_else_def
      setCaptionTimeout_def Let_def)

end
